theory Spec2Isabelle
  imports Complex_Main "HOL-Library.Sublist"
begin

section \<open>Text\<close>

text \<open>
  Python text is modelled as \<open>string\<close>. Questions, model answers and field names are
  taken to be ASCII: \<open>lower\<close> maps the letters A to Z and leaves every other
  character alone, as \<open>str.lower\<close> does on ASCII text.
\<close>

definition lower_char :: "char \<Rightarrow> char" where
  "lower_char c =
     (let n = (of_char c :: nat) in if 65 \<le> n \<and> n \<le> 90 then char_of (n + 32) else c)"

definition lower :: "string \<Rightarrow> string" where
  "lower s = map lower_char s"

text \<open>Python's \<open>sub in s\<close> on strings: \<open>sub\<close> occurs in \<open>s\<close> as a contiguous run.\<close>

definition str_in :: "string \<Rightarrow> string \<Rightarrow> bool" where
  "str_in sub s = sublist sub s"

text \<open>\<open>any(word in s for word in ws)\<close>.\<close>

definition any_in :: "string list \<Rightarrow> string \<Rightarrow> bool" where
  "any_in ws s = list_ex (\<lambda>w. str_in w s) ws"

definition is_digit :: "char \<Rightarrow> bool" where
  "is_digit c = (let n = (of_char c :: nat) in 48 \<le> n \<and> n \<le> 57)"

definition digit_val :: "char \<Rightarrow> int" where
  "digit_val c = int (of_char c) - 48"

section \<open>Values\<close>

text \<open>
  The values that queries, pipelines and result documents are made of. A \<open>dict\<close> is an
  association list in insertion order with distinct keys. \<open>PFloat\<close> carries the literal
  text of a number that is not an integer, \<open>PObjectId\<close> the 24 hexadecimal digits of a
  store identifier, \<open>PDatetime\<close> the date of a \<open>datetime(year, month, day)\<close> at midnight.
\<close>

datatype pyval =
    PNone
  | PBool bool
  | PInt int
  | PFloat string
  | PStr string
  | PList "pyval list"
  | PDict "(string \<times> pyval) list"
  | PObjectId string
  | PDatetime int int int

text \<open>\<open>d[k] = v\<close>: an existing key keeps its place, a new key goes to the end.\<close>

fun dict_set :: "string \<Rightarrow> 'v \<Rightarrow> (string \<times> 'v) list \<Rightarrow> (string \<times> 'v) list" where
  "dict_set k v [] = [(k, v)]"
| "dict_set k v ((k', v') # d) = (if k = k' then (k, v) # d else (k', v') # dict_set k v d)"

section \<open>The deterministic query compiler (dynamic_query_generator.py)\<close>

text \<open>
  \<open>self.metadata\<close> comes from \<open>extract_metadata()\<close>, which is outside the sources: it is a
  parameter here, a dict from collection name to the collection's \<open>fields\<close> dict (field
  name to type tag), both in insertion order. An entry without a \<open>fields\<close> key behaves
  as one with no fields (\<open>info.get('fields', {})\<close>).
\<close>

type_synonym fields = "(string \<times> string) list"
type_synonym metadata = "(string \<times> fields) list"

definition collections :: "metadata \<Rightarrow> string list" where
  "collections md = map fst md"

definition fields_of :: "metadata \<Rightarrow> string \<Rightarrow> fields" where
  "fields_of md c = (case map_of md c of None \<Rightarrow> [] | Some fs \<Rightarrow> fs)"

datatype intent =
  Min_analysis | Max_analysis | Aggregate_sum | Count | Average | List_intent | Max_intent | Min_intent

text \<open>\<open>_determine_intent\<close>: the keyword ladder, first match wins.\<close>

definition determine_intent :: "string \<Rightarrow> intent" where
  "determine_intent question =
     (if any_in [''least'', ''worst'', ''lowest'', ''bottom''] question then Min_analysis
      else if any_in [''most'', ''best'', ''highest'', ''top''] question then Max_analysis
      else if any_in [''total sales'', ''total revenue'', ''sales total''] question then Aggregate_sum
      else if any_in [''total'', ''sum'', ''sales'', ''revenue''] question then Aggregate_sum
      else if any_in [''count'', ''how many'', ''number of''] question then Count
      else if any_in [''average'', ''avg'', ''mean''] question then Average
      else if any_in [''show'', ''list'', ''display'', ''get''] question then List_intent
      else if any_in [''max'', ''maximum'', ''highest''] question then Max_intent
      else if any_in [''min'', ''minimum'', ''lowest''] question then Min_intent
      else List_intent)"

text \<open>\<open>re.search(r'20\d{2}', question)\<close>: the leftmost \<open>20\<close> followed by two digits.\<close>

fun search_year :: "string \<Rightarrow> string option" where
  "search_year (a # b # c # d # rest) =
     (if a = CHR ''2'' \<and> b = CHR ''0'' \<and> is_digit c \<and> is_digit d then Some [a, b, c, d]
      else search_year (b # c # d # rest))"
| "search_year _ = None"

record filters =
  year :: "string option"
  status :: "string option"

text \<open>\<open>_extract_filters\<close>: the year is searched in the question as typed, the status
  keywords in its lower-case form.\<close>

definition extract_filters :: "string \<Rightarrow> filters" where
  "extract_filters question =
     \<lparr> year = search_year question,
       status =
         (if str_in ''completed'' (lower question) then Some ''completed''
          else if str_in ''pending'' (lower question) then Some ''pending''
          else if str_in ''cancelled'' (lower question) then Some ''cancelled''
          else None) \<rparr>"

record analysis =
  a_collections :: "string list"
  a_intent :: intent
  a_filters :: filters

text \<open>The field scan of \<open>analyze_question\<close>: every collection one of whose field names
  occurs in the question, in metadata order.\<close>

definition field_matches :: "metadata \<Rightarrow> string \<Rightarrow> string list" where
  "field_matches md question_lower =
     map fst (filter (\<lambda>(c, fs). list_ex (\<lambda>f. str_in (lower f) question_lower) (map fst fs)) md)"

definition analyze_question :: "metadata \<Rightarrow> string \<Rightarrow> analysis" where
  "analyze_question md question =
     (let question_lower = lower question;
          rc0 =
            (if any_in [''product'', ''products'', ''item'', ''items''] question_lower
             then (if ''orders'' \<in> set (collections md) then [''orders''] else [])
             else if any_in [''sales'', ''revenue'', ''total sales'', ''income''] question_lower
             then (if ''orders'' \<in> set (collections md) then [''orders''] else [])
             else if any_in [''customer'', ''customers'', ''client'', ''clients''] question_lower
             then (if ''customers'' \<in> set (collections md) then [''customers''] else [])
             else []);
          rc1 = rc0 @ filter (\<lambda>c. str_in (lower c) question_lower) (collections md);
          rc2 = (if rc1 = [] then field_matches md question_lower else rc1);
          rc3 =
            (if rc2 = []
             then (if any_in [''sales'', ''revenue'', ''total'', ''amount'', ''product'', ''sold'',
                              ''least'', ''most''] question_lower
                   then [''orders'']
                   else (if collections md \<noteq> [] then [hd (collections md)] else [''orders'']))
             else rc2)
      in \<lparr> a_collections = rc3,
           a_intent = determine_intent question_lower,
           a_filters = extract_filters question \<rparr>)"

text \<open>\<open>_find_amount_field\<close>: candidates in priority order, field names in dict order.\<close>

fun first_candidate :: "string list \<Rightarrow> string list \<Rightarrow> string option" where
  "first_candidate [] names = None"
| "first_candidate (candidate # cs) names =
     (case find (\<lambda>field_name. str_in candidate (lower field_name)) names of
        Some field_name \<Rightarrow> Some field_name
      | None \<Rightarrow> first_candidate cs names)"

definition find_amount_field :: "metadata \<Rightarrow> string \<Rightarrow> string option" where
  "find_amount_field md collection =
     (if collection \<notin> set (collections md) then None
      else first_candidate
             [''amount'', ''total'', ''price'', ''cost'', ''value'', ''revenue'', ''sales'']
             (map fst (fields_of md collection)))"

definition find_date_fields :: "metadata \<Rightarrow> string \<Rightarrow> string list" where
  "find_date_fields md collection =
     (if collection \<notin> set (collections md) then []
      else map fst (filter (\<lambda>(field_name, field_type).
               field_type = ''date'' \<or> str_in ''date'' (lower field_name)
               \<or> str_in ''time'' (lower field_name))
             (fields_of md collection)))"

definition has_field :: "metadata \<Rightarrow> string \<Rightarrow> string \<Rightarrow> bool" where
  "has_field md collection field_name =
     (if collection \<notin> set (collections md) then False
      else field_name \<in> set (map fst (fields_of md collection)))"

text \<open>\<open>int(filters['year'])\<close> on the four characters that \<open>search_year\<close> returns.\<close>

fun int_of_digits :: "int \<Rightarrow> string \<Rightarrow> int" where
  "int_of_digits acc [] = acc"
| "int_of_digits acc (c # cs) = int_of_digits (10 * acc + digit_val c) cs"

definition match_stage_of :: "metadata \<Rightarrow> string \<Rightarrow> intent \<Rightarrow> filters \<Rightarrow> (string \<times> pyval) list" where
  "match_stage_of md collection i fl =
     (let m0 =
            (case year fl of
               None \<Rightarrow> []
             | Some y \<Rightarrow>
                 (case find_date_fields md collection of
                    [] \<Rightarrow> []
                  | date_field # _ \<Rightarrow>
                      [(date_field,
                        PDict [(''$gte'', PDatetime (int_of_digits 0 y) 1 1),
                               (''$lt'', PDatetime (int_of_digits 0 y + 1) 1 1)])]))
      in (case status fl of
            Some s \<Rightarrow>
              (if has_field md collection ''status'' then dict_set ''status'' (PStr s) m0
               else if i = Aggregate_sum \<and> has_field md collection ''status''
               then dict_set ''status'' (PStr ''completed'') m0
               else m0)
          | None \<Rightarrow>
              (if i = Aggregate_sum \<and> has_field md collection ''status''
               then dict_set ''status'' (PStr ''completed'') m0
               else m0)))"

text \<open>The six-stage product pipeline of the \<open>min_analysis\<close> and \<open>max_analysis\<close>
  branches; the two copies in the source differ in the sort direction only.\<close>

definition product_pipeline :: "int \<Rightarrow> pyval list" where
  "product_pipeline direction =
     [PDict [(''$group'', PDict [(''_id'', PStr ''$productId''),
                                 (''totalSales'', PDict [(''$sum'', PStr ''$amount'')]),
                                 (''quantitySold'', PDict [(''$sum'', PStr ''$quantity'')])])],
      PDict [(''$lookup'', PDict [(''from'', PStr ''products''),
                                  (''localField'', PStr ''_id''),
                                  (''foreignField'', PStr ''_id''),
                                  (''as'', PStr ''product'')])],
      PDict [(''$unwind'', PStr ''$product'')],
      PDict [(''$project'', PDict [(''productName'', PStr ''$product.name''),
                                   (''totalSales'', PInt 1),
                                   (''quantitySold'', PInt 1)])],
      PDict [(''$sort'', PDict [(''totalSales'', PInt direction)])],
      PDict [(''$limit'', PInt 10)]]"

definition group_stage :: "string \<Rightarrow> string \<Rightarrow> string \<Rightarrow> pyval" where
  "group_stage out_name operator amount_field =
     PDict [(''$group'', PDict [(''_id'', PNone),
                                (out_name, PDict [(operator, PStr (''$'' @ amount_field))])])]"

definition count_stage :: pyval where
  "count_stage = PDict [(''$count'', PStr ''total'')]"

definition list_stages :: "metadata \<Rightarrow> string \<Rightarrow> pyval list" where
  "list_stages md collection =
     [(case find_date_fields md collection of
         date_field # _ \<Rightarrow> PDict [(''$sort'', PDict [(date_field, PInt (- 1))])]
       | [] \<Rightarrow> PDict [(''$sort'', PDict [(''_id'', PInt (- 1))])]),
      PDict [(''$limit'', PInt 10)]]"

definition intent_stages :: "metadata \<Rightarrow> string \<Rightarrow> string \<Rightarrow> intent \<Rightarrow> pyval list" where
  "intent_stages md question collection i =
     (if i = Count then [count_stage]
      else if i = Aggregate_sum then
        (case find_amount_field md collection of
           Some amount_field \<Rightarrow> [group_stage ''total'' ''$sum'' amount_field]
         | None \<Rightarrow> [count_stage])
      else if i = Average then
        (case find_amount_field md collection of
           Some amount_field \<Rightarrow> [group_stage ''average'' ''$avg'' amount_field]
         | None \<Rightarrow> [])
      else if i = Min_analysis then
        (if any_in [''product'', ''item''] (lower question) then product_pipeline 1
         else (case find_amount_field md collection of
                 Some amount_field \<Rightarrow> [group_stage ''min'' ''$min'' amount_field]
               | None \<Rightarrow> []))
      else if i = Max_analysis then
        (if any_in [''product'', ''item''] (lower question) then product_pipeline (- 1)
         else (case find_amount_field md collection of
                 Some amount_field \<Rightarrow> [group_stage ''max'' ''$max'' amount_field]
               | None \<Rightarrow> []))
      else list_stages md collection)"

datatype py_error = IndexError

text \<open>
  \<open>generate_query\<close>, up to the pipeline it hands to \<open>json.dumps\<close>; the serialisation
  itself is not modelled. \<open>analysis['collections'][0]\<close> raises on an empty list.
\<close>

definition generate_query :: "metadata \<Rightarrow> string \<Rightarrow> py_error + (pyval list \<times> string)" where
  "generate_query md question =
     (let an = analyze_question md question
      in case a_collections an of
           [] \<Rightarrow> Inl IndexError
         | collection # _ \<Rightarrow>
             (let match_stage = match_stage_of md collection (a_intent an) (a_filters an);
                  pipeline = (if match_stage \<noteq> [] then [PDict [(''$match'', PDict match_stage)]] else [])
                             @ intent_stages md question collection (a_intent an)
              in Inr (pipeline, collection)))"

text \<open>\<open>generate_mongo_query\<close>: any exception of \<open>generate_query\<close> gives the one-stage
  fallback.\<close>

definition generate_mongo_query :: "metadata \<Rightarrow> string \<Rightarrow> pyval list" where
  "generate_mongo_query md prompt =
     (case generate_query md prompt of
        Inr (query, collection) \<Rightarrow> query
      | Inl e \<Rightarrow> [PDict [(''$limit'', PInt 10)]])"

text \<open>A stage document with a \<open>$group\<close> key.\<close>

definition is_group_stage :: "pyval \<Rightarrow> bool" where
  "is_group_stage st = (case st of PDict d \<Rightarrow> ''$group'' \<in> set (map fst d) | _ \<Rightarrow> False)"

section \<open>Printing values (the built-ins \<open>str\<close> and \<open>repr\<close>)\<close>

definition digit_char :: "nat \<Rightarrow> char" where
  "digit_char n = char_of (48 + n)"

function show_nat :: "nat \<Rightarrow> string" where
  "show_nat n = (if n < 10 then [digit_char n] else show_nat (n div 10) @ [digit_char (n mod 10)])"
  by pat_completeness auto
termination
  by (relation "measure id") auto

definition show_int :: "int \<Rightarrow> string" where
  "show_int i = (if i < 0 then CHR ''-'' # show_nat (nat (- i)) else show_nat (nat i))"

definition hex_char :: "nat \<Rightarrow> char" where
  "hex_char n = (if n < 10 then char_of (48 + n) else char_of (87 + n))"

text \<open>\<open>repr\<close> of a string: single quotes, unless the text holds a single quote and no
  double quote; backslash, the chosen quote and the control characters are escaped.\<close>

definition repr_char :: "char \<Rightarrow> char \<Rightarrow> string" where
  "repr_char quote c =
     (let n = (of_char c :: nat) in
      if c = CHR 0x5C then [CHR 0x5C, CHR 0x5C]
      else if c = quote then [CHR 0x5C, quote]
      else if n = 9 then [CHR 0x5C, CHR ''t'']
      else if n = 10 then [CHR 0x5C, CHR ''n'']
      else if n = 13 then [CHR 0x5C, CHR ''r'']
      else if n < 32 \<or> n = 127 then [CHR 0x5C, CHR ''x'', hex_char (n div 16), hex_char (n mod 16)]
      else [c])"

definition repr_str :: "string \<Rightarrow> string" where
  "repr_str s =
     (let quote = (if CHR 0x27 \<in> set s \<and> CHR 0x22 \<notin> set s then CHR 0x22 else CHR 0x27)
      in quote # concat (map (repr_char quote) s) @ [quote])"

text \<open>\<open>', '.join(parts)\<close>.\<close>

fun join_comma :: "string list \<Rightarrow> string" where
  "join_comma [] = []"
| "join_comma [p] = p"
| "join_comma (p # q # ps) = p @ '', '' @ join_comma (q # ps)"

text \<open>\<open>repr\<close> of a value. A \<open>PFloat\<close> prints as its literal text.\<close>

fun py_repr :: "pyval \<Rightarrow> string" where
  "py_repr PNone = ''None''"
| "py_repr (PBool b) = (if b then ''True'' else ''False'')"
| "py_repr (PInt i) = show_int i"
| "py_repr (PFloat t) = t"
| "py_repr (PStr s) = repr_str s"
| "py_repr (PList vs) = ''['' @ join_comma (map py_repr vs) @ '']''"
| "py_repr (PDict kvs) =
     ''{'' @ join_comma (map (\<lambda>kv. repr_str (fst kv) @ '': '' @ py_repr (snd kv)) kvs) @ ''}''"
| "py_repr (PObjectId h) = ''ObjectId('' @ [CHR 0x27] @ h @ [CHR 0x27] @ '')''"
| "py_repr (PDatetime y m d) =
     ''datetime.datetime('' @ show_int y @ '', '' @ show_int m @ '', '' @ show_int d @ '', 0, 0)''"

text \<open>\<open>str\<close> of a value: a string is itself, an identifier its hexadecimal digits, a
  date its ISO form without the time zone; everything else prints as its \<open>repr\<close>.\<close>

definition pad2 :: "int \<Rightarrow> string" where
  "pad2 i = (if i < 10 then CHR ''0'' # show_int i else show_int i)"

definition pad4 :: "int \<Rightarrow> string" where
  "pad4 i = replicate (4 - length (show_int i)) CHR ''0'' @ show_int i"

definition py_str :: "pyval \<Rightarrow> string" where
  "py_str v =
     (case v of
        PStr s \<Rightarrow> s
      | PObjectId h \<Rightarrow> h
      | PDatetime y m d \<Rightarrow> pad4 y @ ''-'' @ pad2 m @ ''-'' @ pad2 d @ '' 00:00:00''
      | _ \<Rightarrow> py_repr v)"

section \<open>The document store\<close>

text \<open>
  The store driver is outside the sources. A store answers the three read operations
  the agent uses; each either raises (\<open>Inl\<close> of the exception's message) or returns.
  A document is a dict from field name to value.
\<close>

type_synonym doc = "(string \<times> pyval) list"

record store =
  find_docs :: "string \<Rightarrow> pyval \<Rightarrow> string + doc list"
  count_documents :: "string \<Rightarrow> pyval \<Rightarrow> string + int"
  aggregate :: "string \<Rightarrow> pyval \<Rightarrow> string + doc list"

text \<open>What the agent asks of its collaborators, in order.\<close>

datatype call =
    Find_call string pyval
  | Count_call string pyval
  | Aggregate_call string pyval
  | LLM_call string string

datatype exec_result = Docs "doc list" | Error_descriptor string

section \<open>The safety gate and the find dispatcher (MongoDBConnector.execute_query)\<close>

definition prohibited_ops :: "string list" where
  "prohibited_ops =
     [''$set'', ''$unset'', ''$push'', ''$pull'', ''deleteOne'', ''deleteMany'',
      ''updateOne'', ''updateMany'', ''drop'']"

text \<open>\<open>any(op in str(query).lower() for op in [...])\<close>.\<close>

definition safety_check :: "pyval \<Rightarrow> bool" where
  "safety_check query = any_in prohibited_ops (lower (py_str query))"

text \<open>\<open>if '_id' in doc: doc['_id'] = str(doc['_id'])\<close>.\<close>

definition convert_id :: "doc \<Rightarrow> doc" where
  "convert_id d =
     (case map_of d ''_id'' of
        None \<Rightarrow> d
      | Some v \<Rightarrow> dict_set ''_id'' (PStr (py_str v)) d)"

text \<open>
  \<open>execute_query\<close> with the connector's \<open>db\<close> (\<open>None\<close> when the connection failed, so
  that \<open>self.db[collection_name]\<close> raises). The result comes with the store calls made.
\<close>

definition execute_query :: "store option \<Rightarrow> string \<Rightarrow> pyval \<Rightarrow> exec_result \<times> call list" where
  "execute_query db collection_name query =
     (case db of
        None \<Rightarrow> (Error_descriptor
                  ([CHR 0x27] @ ''NoneType'' @ [CHR 0x27] @ '' object is not subscriptable''), [])
      | Some st \<Rightarrow>
          if safety_check query
          then (Error_descriptor ''Data modification queries are not allowed'', [])
          else (case find_docs st collection_name query of
                  Inl msg \<Rightarrow> (Error_descriptor msg, [Find_call collection_name query])
                | Inr results \<Rightarrow>
                    (Docs (map convert_id (take 10 results)),
                     [Find_call collection_name query])))"

section \<open>Decoding JSON text (the library call \<open>json.loads\<close>)\<close>

text \<open>
  \<open>json.loads\<close> belongs to the Python library. The decoder below follows its grammar:
  the four blanks between tokens, objects whose keys are double-quoted strings, arrays,
  strings without raw control characters and with the escapes of JSON, numbers, the
  literals \<open>true\<close>, \<open>false\<close>, \<open>null\<close> and the three non-finite numbers the library
  accepts. An escape \<open>\uXXXX\<close> yields the UTF-8 bytes of its code point. \<open>None\<close>
  stands for the decode error. The fuel bounds the nesting of the recursion and is
  started above the length of the text.
\<close>

definition is_json_ws :: "char \<Rightarrow> bool" where
  "is_json_ws c = (c = CHR '' '' \<or> c = CHR 0x09 \<or> c = CHR 0x0A \<or> c = CHR 0x0D)"

definition skip_ws :: "string \<Rightarrow> string" where
  "skip_ws s = dropWhile is_json_ws s"

definition hex_val :: "char \<Rightarrow> nat option" where
  "hex_val c =
     (let n = (of_char c :: nat) in
      if 48 \<le> n \<and> n \<le> 57 then Some (n - 48)
      else if 97 \<le> n \<and> n \<le> 102 then Some (n - 87)
      else if 65 \<le> n \<and> n \<le> 70 then Some (n - 55)
      else None)"

definition hex4 :: "string \<Rightarrow> nat option" where
  "hex4 s =
     (case s of
        a # b # c # d # _ \<Rightarrow>
          (case (hex_val a, hex_val b, hex_val c, hex_val d) of
             (Some x, Some y, Some z, Some w) \<Rightarrow> Some (((x * 16 + y) * 16 + z) * 16 + w)
           | _ \<Rightarrow> None)
      | _ \<Rightarrow> None)"

definition utf8 :: "nat \<Rightarrow> string" where
  "utf8 cp =
     (if cp < 128 then [char_of cp]
      else if cp < 2048 then [char_of (192 + cp div 64), char_of (128 + cp mod 64)]
      else if cp < 65536 then
        [char_of (224 + cp div 4096), char_of (128 + (cp div 64) mod 64), char_of (128 + cp mod 64)]
      else
        [char_of (240 + cp div 262144), char_of (128 + (cp div 4096) mod 64),
         char_of (128 + (cp div 64) mod 64), char_of (128 + cp mod 64)])"

definition unescape :: "char \<Rightarrow> char option" where
  "unescape e =
     (if e = CHR 0x22 then Some (CHR 0x22)
      else if e = CHR 0x5C then Some (CHR 0x5C)
      else if e = CHR ''/'' then Some (CHR ''/'')
      else if e = CHR ''b'' then Some (CHR 0x08)
      else if e = CHR ''f'' then Some (CHR 0x0C)
      else if e = CHR ''n'' then Some (CHR 0x0A)
      else if e = CHR ''r'' then Some (CHR 0x0D)
      else if e = CHR ''t'' then Some (CHR 0x09)
      else None)"

text \<open>The low half of a surrogate pair, when the text goes on with one.\<close>

definition low_surrogate :: "string \<Rightarrow> nat option" where
  "low_surrogate s =
     (if take 2 s = [CHR 0x5C, CHR ''u''] then
        (case hex4 (drop 2 s) of
           Some lo \<Rightarrow> if 56320 \<le> lo \<and> lo \<le> 57343 then Some lo else None
         | None \<Rightarrow> None)
      else None)"

definition push_chars :: "string \<Rightarrow> (string \<times> string) option \<Rightarrow> (string \<times> string) option" where
  "push_chars cs r = (case r of None \<Rightarrow> None | Some (s, rest) \<Rightarrow> Some (cs @ s, rest))"

text \<open>The body of a string, from after its opening quote: the decoded text and what
  follows the closing quote.\<close>

function scan_string :: "string \<Rightarrow> (string \<times> string) option" where
  "scan_string [] = None"
| "scan_string (c # cs) =
     (if c = CHR 0x22 then Some ([], cs)
      else if c = CHR 0x5C then
        (case cs of
           [] \<Rightarrow> None
         | e # r \<Rightarrow>
             if e = CHR ''u'' then
               (case hex4 r of
                  None \<Rightarrow> None
                | Some hi \<Rightarrow>
                    (case (if 55296 \<le> hi \<and> hi \<le> 56319 then low_surrogate (drop 4 r) else None) of
                       Some lo \<Rightarrow>
                         push_chars (utf8 (65536 + (hi - 55296) * 1024 + (lo - 56320)))
                           (scan_string (drop 10 r))
                     | None \<Rightarrow> push_chars (utf8 hi) (scan_string (drop 4 r))))
             else (case unescape e of
                     None \<Rightarrow> None
                   | Some ch \<Rightarrow> push_chars [ch] (scan_string r)))
      else if (of_char c :: nat) < 32 then None
      else push_chars [c] (scan_string cs))"
  by pat_completeness auto
termination
  by (relation "measure length") auto

text \<open>The exponent of a number, if one follows: \<open>e\<close> or \<open>E\<close>, an optional sign and at
  least one digit.\<close>

definition scan_exponent :: "string \<Rightarrow> string" where
  "scan_exponent s =
     (case s of
        [] \<Rightarrow> []
      | e # r \<Rightarrow>
          if e = CHR ''e'' \<or> e = CHR ''E'' then
            (let sgn = (case r of
                          [] \<Rightarrow> []
                        | g # _ \<Rightarrow> if g = CHR ''+'' \<or> g = CHR ''-'' then [g] else []);
                 ds = takeWhile is_digit (drop (length sgn) r)
             in if ds = [] then [] else e # sgn @ ds)
          else [])"

definition scan_number :: "string \<Rightarrow> (pyval \<times> string) option" where
  "scan_number s =
     (let sgn = (case s of [] \<Rightarrow> [] | c # _ \<Rightarrow> if c = CHR ''-'' then [c] else []);
          s1 = drop (length sgn) s
      in case s1 of
           [] \<Rightarrow> None
         | c # _ \<Rightarrow>
             if \<not> is_digit c then None
             else
               (let ipart = (if c = CHR ''0'' then [c] else takeWhile is_digit s1);
                    s2 = drop (length ipart) s1;
                    frac = (case s2 of
                              d # f # _ \<Rightarrow>
                                if d = CHR ''.'' \<and> is_digit f
                                then d # takeWhile is_digit (drop 1 s2) else []
                            | _ \<Rightarrow> []);
                    s3 = drop (length frac) s2;
                    ex = scan_exponent s3;
                    s4 = drop (length ex) s3
                in if frac = [] \<and> ex = []
                   then Some (PInt (if sgn = [] then int_of_digits 0 ipart
                                    else - int_of_digits 0 ipart), s4)
                   else Some (PFloat (sgn @ ipart @ frac @ ex), s4)))"

text \<open>A dict built from its pairs in order: a repeated key keeps its first place and
  its last value.\<close>

definition dict_of_pairs :: "(string \<times> pyval) list \<Rightarrow> (string \<times> pyval) list" where
  "dict_of_pairs ps = foldl (\<lambda>d kv. dict_set (fst kv) (snd kv) d) [] ps"

fun parse_value :: "nat \<Rightarrow> string \<Rightarrow> (pyval \<times> string) option"
  and parse_members :: "nat \<Rightarrow> (string \<times> pyval) list \<Rightarrow> string \<Rightarrow> (pyval \<times> string) option"
  and parse_elements :: "nat \<Rightarrow> pyval list \<Rightarrow> string \<Rightarrow> (pyval \<times> string) option"
where
  "parse_value 0 s = None"
| "parse_value (Suc n) s =
     (case s of
        [] \<Rightarrow> None
      | c # r \<Rightarrow>
          if c = CHR 0x22 then
            (case scan_string r of None \<Rightarrow> None | Some (str, rest) \<Rightarrow> Some (PStr str, rest))
          else if c = CHR ''{'' then
            (case skip_ws r of
               [] \<Rightarrow> None
             | c1 # r1 \<Rightarrow> if c1 = CHR ''}'' then Some (PDict [], r1)
                          else parse_members n [] (c1 # r1))
          else if c = CHR ''['' then
            (case skip_ws r of
               [] \<Rightarrow> None
             | c1 # r1 \<Rightarrow> if c1 = CHR '']'' then Some (PList [], r1)
                          else parse_elements n [] (c1 # r1))
          else if prefix ''null'' s then Some (PNone, drop 4 s)
          else if prefix ''true'' s then Some (PBool True, drop 4 s)
          else if prefix ''false'' s then Some (PBool False, drop 5 s)
          else if prefix ''NaN'' s then Some (PFloat ''NaN'', drop 3 s)
          else if prefix ''Infinity'' s then Some (PFloat ''Infinity'', drop 8 s)
          else if prefix ''-Infinity'' s then Some (PFloat ''-Infinity'', drop 9 s)
          else scan_number s)"
| "parse_members 0 acc s = None"
| "parse_members (Suc n) acc s =
     (case s of
        [] \<Rightarrow> None
      | c # r \<Rightarrow>
          if c \<noteq> CHR 0x22 then None
          else
            (case scan_string r of
               None \<Rightarrow> None
             | Some (key, r1) \<Rightarrow>
                 (case skip_ws r1 of
                    [] \<Rightarrow> None
                  | c2 # r2 \<Rightarrow>
                      if c2 \<noteq> CHR '':'' then None
                      else
                        (case parse_value n (skip_ws r2) of
                           None \<Rightarrow> None
                         | Some (v, r3) \<Rightarrow>
                             (case skip_ws r3 of
                                [] \<Rightarrow> None
                              | c4 # r4 \<Rightarrow>
                                  if c4 = CHR ''}''
                                  then Some (PDict (dict_of_pairs (acc @ [(key, v)])), r4)
                                  else if c4 = CHR '',''
                                  then parse_members n (acc @ [(key, v)]) (skip_ws r4)
                                  else None)))))"
| "parse_elements 0 acc s = None"
| "parse_elements (Suc n) acc s =
     (case parse_value n s of
        None \<Rightarrow> None
      | Some (v, r1) \<Rightarrow>
          (case skip_ws r1 of
             [] \<Rightarrow> None
           | c2 # r2 \<Rightarrow>
               if c2 = CHR '']'' then Some (PList (acc @ [v]), r2)
               else if c2 = CHR '','' then parse_elements n (acc @ [v]) (skip_ws r2)
               else None))"

definition json_loads :: "string \<Rightarrow> pyval option" where
  "json_loads s =
     (case parse_value (Suc (length s)) (skip_ws s) of
        None \<Rightarrow> None
      | Some (v, rest) \<Rightarrow> if skip_ws rest = [] then Some v else None)"

section \<open>The recovery parser (MongoDBChatAgent.process_query, parsing part)\<close>

text \<open>White space as \<open>\s\<close> and \<open>str.strip\<close> see it on ASCII text.\<close>

definition is_space :: "char \<Rightarrow> bool" where
  "is_space c = (let n = (of_char c :: nat) in (9 \<le> n \<and> n \<le> 13) \<or> (28 \<le> n \<and> n \<le> 32))"

definition strip :: "string \<Rightarrow> string" where
  "strip s = rev (dropWhile is_space (rev (dropWhile is_space s)))"

definition is_alpha :: "char \<Rightarrow> bool" where
  "is_alpha c = (let n = (of_char c :: nat) in (65 \<le> n \<and> n \<le> 90) \<or> (97 \<le> n \<and> n \<le> 122))"

text \<open>The class \<open>[a-zA-Z0-9_]\<close> of collection names.\<close>

definition is_word_char :: "char \<Rightarrow> bool" where
  "is_word_char c = (is_alpha c \<or> is_digit c \<or> c = CHR ''_'')"

datatype operation = Find | Aggregate | CountDocuments | Count_op

text \<open>The alternation \<open>(find|aggregate|countDocuments|count)\(\<close>, in its order.\<close>

definition match_operation :: "string \<Rightarrow> (operation \<times> string) option" where
  "match_operation s =
     (if prefix ''find('' s then Some (Find, drop 5 s)
      else if prefix ''aggregate('' s then Some (Aggregate, drop 10 s)
      else if prefix ''countDocuments('' s then Some (CountDocuments, drop 15 s)
      else if prefix ''count('' s then Some (Count_op, drop 6 s)
      else None)"

text \<open>The pattern \<open>db\.([a-zA-Z0-9_]+)\.(find|aggregate|countDocuments|count)\(\<close> at the
  start of \<open>s\<close>: the collection name, the operation and the text after the opening
  parenthesis.\<close>

definition match_command :: "string \<Rightarrow> (string \<times> operation \<times> string) option" where
  "match_command s =
     (if prefix ''db.'' s then
        (let name = takeWhile is_word_char (drop 3 s);
             rest = dropWhile is_word_char (drop 3 s)
         in if name = [] then None
            else (case rest of
                    [] \<Rightarrow> None
                  | c # r \<Rightarrow>
                      if c = CHR ''.'' then
                        (case match_operation r of
                           None \<Rightarrow> None
                         | Some (operation, content_after_op) \<Rightarrow>
                             Some (name, operation, content_after_op))
                      else None))
      else None)"

text \<open>\<open>re.search\<close>: the leftmost position where the pattern matches.\<close>

fun search_command :: "string \<Rightarrow> (string \<times> operation \<times> string) option" where
  "search_command [] = None"
| "search_command (c # cs) =
     (case match_command (c # cs) of
        Some m \<Rightarrow> Some m
      | None \<Rightarrow> search_command cs)"

text \<open>
  The bracket counter, run on \<open>content_after_op[start:]\<close>: the stack of the source is
  its depth. The result is \<open>i + 1\<close> for the index \<open>i\<close> at which the stack empties,
  \<open>None\<close> when it never does; \<open>stack.pop()\<close> on an empty stack raises.
\<close>

fun scan_brackets :: "char \<Rightarrow> char \<Rightarrow> nat \<Rightarrow> nat \<Rightarrow> string \<Rightarrow> py_error + nat option" where
  "scan_brackets opn cls depth i [] = Inr None"
| "scan_brackets opn cls depth i (c # cs) =
     (if c = opn then scan_brackets opn cls (Suc depth) (Suc i) cs
      else if c = cls then
        (case depth of
           0 \<Rightarrow> Inl IndexError
         | Suc d \<Rightarrow> if d = 0 then Inr (Some (Suc i)) else scan_brackets opn cls d (Suc i) cs)
      else scan_brackets opn cls depth (Suc i) cs)"

text \<open>\<open>s.find(c)\<close> for a character that occurs in \<open>s\<close>, and \<open>s.rfind(c) + 1\<close>, which is
  0 when \<open>c\<close> does not occur.\<close>

definition find_char :: "char \<Rightarrow> string \<Rightarrow> nat" where
  "find_char c s = length (takeWhile (\<lambda>x. x \<noteq> c) s)"

definition rfind_end :: "char \<Rightarrow> string \<Rightarrow> nat" where
  "rfind_end c s =
     (if c \<in> set s then length s - length (takeWhile (\<lambda>x. x \<noteq> c) (rev s)) else 0)"

text \<open>The slice \<open>s[start:end]\<close> for indices within the text; empty when \<open>end \<le> start\<close>.\<close>

definition slice :: "string \<Rightarrow> nat \<Rightarrow> nat \<Rightarrow> string" where
  "slice s start end = take (end - start) (drop start s)"

text \<open>The classes \<open>[a-zA-Z_$]\<close> and \<open>[a-zA-Z0-9_$]\<close> of the key pattern, and its
  leading class \<open>[{\s,]\<close>.\<close>

definition is_key_start :: "char \<Rightarrow> bool" where
  "is_key_start c = (is_alpha c \<or> c = CHR ''_'' \<or> c = CHR ''$'')"

definition is_key_char :: "char \<Rightarrow> bool" where
  "is_key_char c = (is_alpha c \<or> is_digit c \<or> c = CHR ''_'' \<or> c = CHR ''$'')"

definition is_key_opener :: "char \<Rightarrow> bool" where
  "is_key_opener c = (c = CHR ''{'' \<or> is_space c \<or> c = CHR '','')"

text \<open>\<open>([a-zA-Z_$][a-zA-Z0-9_$]*)\s*:\<close> at the start of \<open>s\<close>: the key and the number of
  characters the match takes.\<close>

definition match_key :: "string \<Rightarrow> (string \<times> nat) option" where
  "match_key s =
     (case s of
        [] \<Rightarrow> None
      | c # _ \<Rightarrow>
          if is_key_start c then
            (let key = takeWhile is_key_char s;
                 blanks = takeWhile is_space (drop (length key) s)
             in case drop (length key + length blanks) s of
                  [] \<Rightarrow> None
                | d # _ \<Rightarrow>
                    if d = CHR '':'' then Some (key, length key + length blanks + 1) else None)
          else None)"

text \<open>\<open>re.sub(r'([{\s,])([a-zA-Z_$][a-zA-Z0-9_$]*)\s*:', r'\1"\2":', s)\<close>: every bare
  key after a brace, a blank or a comma is put in double quotes, left to right, the
  matches not overlapping.\<close>

function quote_keys :: "string \<Rightarrow> string" where
  "quote_keys [] = []"
| "quote_keys (c # cs) =
     (if is_key_opener c then
        (case match_key cs of
           Some (key, n) \<Rightarrow> c # CHR 0x22 # key @ CHR 0x22 # CHR '':'' # quote_keys (drop n cs)
         | None \<Rightarrow> c # quote_keys cs)
      else c # quote_keys cs)"
  by pat_completeness auto
termination
  by (relation "measure length") auto

text \<open>
  The decoding chain of the branch in which the counter found the end of the argument:
  the rewritten text, then the text as it is, then \<open>ast.literal_eval\<close> (a parameter:
  \<open>None\<close> when it raises), then the empty default.
\<close>

definition decode_balanced :: "(string \<Rightarrow> pyval option) \<Rightarrow> pyval \<Rightarrow> string \<Rightarrow> pyval" where
  "decode_balanced literal_eval dflt query_str =
     (case json_loads (quote_keys query_str) of
        Some v \<Rightarrow> v
      | None \<Rightarrow>
          (case json_loads query_str of
             Some v \<Rightarrow> v
           | None \<Rightarrow>
               (case literal_eval query_str of
                  Some v \<Rightarrow> v
                | None \<Rightarrow> dflt)))"

text \<open>The chain of the fallback branch: the rewritten text, then the empty default.\<close>

definition decode_fallback :: "pyval \<Rightarrow> string \<Rightarrow> pyval" where
  "decode_fallback dflt query_str =
     (case json_loads (quote_keys query_str) of
        Some v \<Rightarrow> v
      | None \<Rightarrow> dflt)"

text \<open>The argument of the command: \<open>opn\<close> and \<open>cls\<close> are the braces for \<open>find\<close> and the
  counts, the square brackets for \<open>aggregate\<close>.\<close>

definition parse_argument ::
  "(string \<Rightarrow> pyval option) \<Rightarrow> char \<Rightarrow> char \<Rightarrow> pyval \<Rightarrow> string \<Rightarrow> py_error + pyval" where
  "parse_argument literal_eval opn cls dflt content_after_op =
     (if opn \<in> set content_after_op then
        (let start = find_char opn content_after_op
         in case scan_brackets opn cls 0 0 (drop start content_after_op) of
              Inl e \<Rightarrow> Inl e
            | Inr (Some n) \<Rightarrow>
                Inr (decode_balanced literal_eval dflt
                       (slice content_after_op start (start + n)))
            | Inr None \<Rightarrow>
                Inr (decode_fallback dflt
                       (slice content_after_op start (rfind_end cls content_after_op))))
      else Inr dflt)"

record recovered =
  collection_name :: string
  operation :: operation
  argument :: pyval

text \<open>The parser on the stripped answer of the model: \<open>Inr None\<close> when no command is
  found, \<open>Inl\<close> when the parsing raises.\<close>

definition recover :: "(string \<Rightarrow> pyval option) \<Rightarrow> string \<Rightarrow> py_error + recovered option" where
  "recover literal_eval query_code =
     (case search_command query_code of
        None \<Rightarrow> Inr None
      | Some (name, op, content_after_op) \<Rightarrow>
          (case (if op = Aggregate
                 then parse_argument literal_eval CHR ''['' CHR '']'' (PList []) content_after_op
                 else parse_argument literal_eval CHR ''{'' CHR ''}'' (PDict []) content_after_op) of
             Inl e \<Rightarrow> Inl e
           | Inr arg \<Rightarrow>
               Inr (Some \<lparr> collection_name = name, operation = op, argument = arg \<rparr>)))"

section \<open>The context of the prompt (PromptBuilder)\<close>

text \<open>
  The embedding model and the cosine ranking are outside the model: the ranked list that
  \<open>search_collections\<close> returns (collection name and similarity score, best first) is
  a parameter, and so is the text of one collection's section of the context, which the
  source assembles from the cached metadata and a live sample document. Scores are
  real numbers here.
\<close>

definition decline_system_prompt :: string where
  "decline_system_prompt =
     ''You are a MongoDB query assistant. If the user asks something not related to the database, politely decline and suggest a relevant database query.''"

definition decline_user_prompt :: "string \<Rightarrow> string" where
  "decline_user_prompt user_question =
     ''User asked: ''
     @ user_question
     @ ''\<newline>\<newline>This question doesn'' @ [CHR 0x27] @ ''t seem related to the database. Please ask something about the data in the MongoDB collections.''"

definition system_prompt :: string where
  "system_prompt =
     concat
       [''You are a MongoDB query expert. Your ONLY job is to:\<newline>'',
        ''1. Generate MongoDB queries based on user questions\<newline>'',
        ''2. Use ONLY the collections and fields provided\<newline>'',
        ''3. Return ONLY valid MongoDB query syntax\<newline>'',
        ''4. Do NOT make up field names or collections\<newline>'',
        ''5. Do NOT attempt data modifications (no $set, $unset, deleteOne, deleteMany, drop, etc.)\<newline>'',
        ''6. Do NOT hallucinate - if you can'' @ [CHR 0x27] @ ''t construct a valid query, say '' @ [CHR 0x22] @ ''UNABLE_TO_QUERY'' @ [CHR 0x22] @ ''\<newline>'',
        ''7. For simple key-value lookups use: db.collection.find({...})\<newline>'',
        ''8. For SORTING, LIMITING (top N), GROUPING: Use db.collection.aggregate([...])\<newline>'',
        ''9. For counting: Use db.collection.countDocuments({...})\<newline>'',
        ''10. For JOINING data (e.g. Orders + Customers), you MUST use this pattern:\<newline>'',
        ''    [\<newline>'',
        ''      {$match: ...},\<newline>'',
        ''      {$lookup: {from: '' @ [CHR 0x22] @ ''customers'' @ [CHR 0x22] @ '', localField: '' @ [CHR 0x22] @ ''customerId'' @ [CHR 0x22] @ '', foreignField: '' @ [CHR 0x22] @ ''_id'' @ [CHR 0x22] @ '', as: '' @ [CHR 0x22] @ ''customer_docs'' @ [CHR 0x22] @ ''}},\<newline>'',
        ''      {$unwind: '' @ [CHR 0x22] @ ''$customer_docs'' @ [CHR 0x22] @ ''},\<newline>'',
        ''      {$project: {\<newline>'',
        ''         _id: 0,\<newline>'',
        ''         order_status: '' @ [CHR 0x22] @ ''$status'' @ [CHR 0x22] @ '',\<newline>'',
        ''         amount: 1,\<newline>'',
        ''         customer_name: '' @ [CHR 0x22] @ ''$customer_docs.name'' @ [CHR 0x22] @ '',\<newline>'',
        ''         customer_email: '' @ [CHR 0x22] @ ''$customer_docs.email'' @ [CHR 0x22] @ ''\<newline>'',
        ''      }}\<newline>'',
        ''    ]\<newline>'',
        ''11. IF user asks for a field (e.g. '' @ [CHR 0x27] @ ''customerName'' @ [CHR 0x27] @ '') that is NOT in the collection'' @ [CHR 0x27] @ ''s schema, you MUST use $lookup -> $unwind -> $project to fetch it.\<newline>'',
        ''\<newline>'',
        ''CRITICAL RULES:\<newline>'',
        ''- NEVER suggest DROP, DELETE, UPDATE, or MODIFY operations\<newline>'',
        ''- NEVER create new collections or fields\<newline>'',
        ''- If the user asks for '' @ [CHR 0x22] @ ''Top N'' @ [CHR 0x22] @ '', '' @ [CHR 0x22] @ ''Bottom N'' @ [CHR 0x22] @ '', or '' @ [CHR 0x22] @ ''Sort By'' @ [CHR 0x22] @ '', you MUST use aggregate with $sort and $limit\<newline>'',
        ''- If user asks for data modification, respond: '' @ [CHR 0x22] @ ''MODIFICATION_NOT_ALLOWED: Cannot modify database'' @ [CHR 0x22] @ ''\<newline>'',
        ''- If user asks something unrelated to database, respond: '' @ [CHR 0x22] @ ''OUT_OF_SCOPE: This question is not related to the database'' @ [CHR 0x22] @ ''\<newline>'',
        ''\<newline>'',
        ''Return ONLY the MongoDB query code, nothing else.'']"

definition user_prompt :: "string \<Rightarrow> string \<Rightarrow> string" where
  "user_prompt schema_context user_question =
     ''Available Database Schema:\<newline>''
     @ schema_context
     @ ''\<newline>\<newline>User Question: '' @ [CHR 0x22]
     @ user_question
     @ [CHR 0x22] @ ''\<newline>\<newline>Generate the MongoDB query to answer this question. Use ONLY the collections and fields shown above.\<newline>Return ONLY the query code, no explanation.''"

definition context_header :: string where
  "context_header =
     ''## Available MongoDB Collections\<newline>\<newline>''
     @ [CHR 0xE2] @ [CHR 0x9A] @ [CHR 0xA0] @ [CHR 0xEF] @ [CHR 0xB8] @ [CHR 0x8F] @ '' IMPORTANT: Use ONLY the field names shown below. Do NOT invent field names.\<newline>\<newline>''"

definition build_context :: "(string \<times> real) list \<Rightarrow> (string \<Rightarrow> string) \<Rightarrow> string" where
  "build_context relevant_collections describe =
     (if relevant_collections = [] \<or> snd (hd relevant_collections) < 0.3
      then ''NO_RELEVANT_COLLECTION''
      else context_header
           @ concat (map (\<lambda>(collection_name, similarity_score). describe collection_name)
                       (filter (\<lambda>(collection_name, similarity_score). \<not> similarity_score < 0.2)
                          relevant_collections)))"

section \<open>The chat agent (MongoDBChatAgent.process_query)\<close>

text \<open>
  The collaborators of the agent: the connector's database (\<open>None\<close> when the connection
  failed), the ranker, the sections of the context, the language model (its
  \<open>generate\<close> catches every exception and returns text) and \<open>ast.literal_eval\<close>.
\<close>

record agent =
  db :: "store option"
  search_collections :: "string \<Rightarrow> (string \<times> real) list"
  describe_collection :: "string \<Rightarrow> string"
  llm_generate :: "string \<Rightarrow> string \<Rightarrow> string"
  literal_eval :: "string \<Rightarrow> pyval option"

definition get_reliable_prompt :: "agent \<Rightarrow> string \<Rightarrow> string \<times> string" where
  "get_reliable_prompt ag user_question =
     (let schema_context =
            build_context (search_collections ag user_question) (describe_collection ag)
      in if schema_context = ''NO_RELEVANT_COLLECTION''
         then (decline_system_prompt, decline_user_prompt user_question)
         else (system_prompt, user_prompt schema_context user_question))"

text \<open>
  What \<open>process_query\<close> answers. The fixed messages are constructors; \<open>Formatted\<close>
  holds the results handed to \<open>ResponseFormatter.format_results\<close>, whose layout of the
  text is not modelled.
\<close>

datatype reply =
    Prohibited_question
  | Out_of_scope_prompt
  | LLM_error string
  | Unable_to_query
  | Modification_not_allowed
  | Out_of_scope_answer
  | Count_error string
  | Unidentified_command string
  | Execution_error string string
  | Formatted exec_result

definition prohibited_words :: "string list" where
  "prohibited_words =
     [''drop'', ''delete'', ''update'', ''insert'', ''modify'', ''remove'', ''truncate'', ''alter'']"

definition none_not_subscriptable :: string where
  "none_not_subscriptable =
     [CHR 0x27] @ ''NoneType'' @ [CHR 0x27] @ '' object is not subscriptable''"

text \<open>The pipeline of the orders-with-customers template.\<close>

definition join_pipeline :: "string \<Rightarrow> pyval" where
  "join_pipeline question_lower =
     (let match_filter =
            (if str_in ''completed'' question_lower then [(''status'', PStr ''completed'')]
             else if str_in ''pending'' question_lower then [(''status'', PStr ''pending'')]
             else if str_in ''cancelled'' question_lower then [(''status'', PStr ''cancelled'')]
             else [])
      in PList
           [PDict [(''$match'', PDict match_filter)],
            PDict [(''$lookup'', PDict [(''from'', PStr ''customers''),
                                        (''localField'', PStr ''customerId''),
                                        (''foreignField'', PStr ''_id''),
                                        (''as'', PStr ''customer_info'')])],
            PDict [(''$unwind'', PDict [(''path'', PStr ''$customer_info''),
                                        (''preserveNullAndEmptyArrays'', PBool True)])],
            PDict [(''$project'', PDict [(''_id'', PInt 0),
                                         (''status'', PInt 1),
                                         (''amount'', PInt 1),
                                         (''quantity'', PInt 1),
                                         (''customer_name'', PStr ''$customer_info.name''),
                                         (''customer_email'', PStr ''$customer_info.email'')])],
            PDict [(''$limit'', PInt 10)]])"

text \<open>The template: its answer when it applies and succeeds, and the store calls made.
  A failure of the aggregation falls through to the model.\<close>

definition join_template :: "agent \<Rightarrow> string \<Rightarrow> reply option \<times> call list" where
  "join_template ag question_lower =
     (if str_in ''order'' question_lower
         \<and> any_in [''customer'', ''user'', ''client''] question_lower
         \<and> any_in [''name'', ''email'', ''detail'', ''info''] question_lower
      then
        (case db ag of
           None \<Rightarrow> (None, [])
         | Some st \<Rightarrow>
             (case aggregate st ''orders'' (join_pipeline question_lower) of
                Inl msg \<Rightarrow> (None, [Aggregate_call ''orders'' (join_pipeline question_lower)])
              | Inr results \<Rightarrow>
                  (Some (Formatted (Docs results)),
                   [Aggregate_call ''orders'' (join_pipeline question_lower)])))
      else (None, []))"

text \<open>The dispatch of a recovered command: \<open>find\<close> goes through \<open>execute_query\<close>, the
  counts and \<open>aggregate\<close> go to the store directly.\<close>

definition run_command :: "store option \<Rightarrow> string \<Rightarrow> recovered \<Rightarrow> reply \<times> call list" where
  "run_command database query_code cmd =
     (let name = collection_name cmd; arg = argument cmd
      in if operation cmd = Find then
           (case execute_query database name arg of (results, calls) \<Rightarrow> (Formatted results, calls))
         else if operation cmd = CountDocuments \<or> operation cmd = Count_op then
           (case database of
              None \<Rightarrow> (Count_error none_not_subscriptable, [])
            | Some st \<Rightarrow>
                (case count_documents st name arg of
                   Inl msg \<Rightarrow> (Count_error msg, [Count_call name arg])
                 | Inr count \<Rightarrow>
                     (Formatted (Docs [[(''count'', PInt count),
                                        (''description'',
                                         PStr (''Total documents in '' @ name @ '' matching query''))]]),
                      [Count_call name arg])))
         else
           (case database of
              None \<Rightarrow> (Execution_error none_not_subscriptable query_code, [])
            | Some st \<Rightarrow>
                (case aggregate st name arg of
                   Inl msg \<Rightarrow> (Execution_error msg query_code, [Aggregate_call name arg])
                 | Inr results \<Rightarrow>
                     (Formatted (Docs (take 10 results)), [Aggregate_call name arg]))))"

definition process_query :: "agent \<Rightarrow> string \<Rightarrow> reply \<times> call list" where
  "process_query ag user_question =
     (if any_in prohibited_words (lower user_question) then (Prohibited_question, [])
      else
        (case join_template ag (lower user_question) of
           (Some answer, calls0) \<Rightarrow> (answer, calls0)
         | (None, calls0) \<Rightarrow>
             (case get_reliable_prompt ag user_question of
                (sys_prompt, usr_prompt) \<Rightarrow>
                  if str_in ''OUT_OF_SCOPE'' sys_prompt \<or> str_in ''OUT_OF_SCOPE'' usr_prompt
                  then (Out_of_scope_prompt, calls0)
                  else
                    (let answer = llm_generate ag sys_prompt usr_prompt;
                         calls1 = calls0 @ [LLM_call sys_prompt usr_prompt];
                         query_code = strip answer
                     in if str_in ''ERROR:'' answer then (LLM_error answer, calls1)
                        else if str_in ''UNABLE_TO_QUERY'' answer then (Unable_to_query, calls1)
                        else if str_in ''MODIFICATION_NOT_ALLOWED'' answer
                        then (Modification_not_allowed, calls1)
                        else if str_in ''OUT_OF_SCOPE'' answer then (Out_of_scope_answer, calls1)
                        else
                          (case recover (literal_eval ag) query_code of
                             Inl e \<Rightarrow> (Execution_error ''pop from empty list'' query_code, calls1)
                           | Inr None \<Rightarrow> (Unidentified_command query_code, calls1)
                           | Inr (Some cmd) \<Rightarrow>
                               (case run_command (db ag) query_code cmd of
                                  (answer, calls2) \<Rightarrow> (answer, calls1 @ calls2)))))))"

section \<open>Sample collaborators\<close>

text \<open>
  A store with one order and one aggregation result, a literal evaluator that raises on
  every text (it stands in where the evaluator is not reached), and an agent whose
  ranker finds no collection and whose model answers with an aggregation command.
\<close>

definition sample_store :: store where
  "sample_store =
     \<lparr> find_docs = (\<lambda>c q. Inr [[(''_id'', PObjectId ''65a1b2c3d4e5f60718293a4b''),
                                  (''customerId'', PObjectId ''65a1b2c3d4e5f60718293a4c''),
                                  (''status'', PStr ''pending'')]]),
       count_documents = (\<lambda>c q. Inr 1),
       aggregate = (\<lambda>c q. Inr [[(''_id'', PObjectId ''65a1b2c3d4e5f60718293a4c''),
                                  (''total'', PInt 250)]]) \<rparr>"

definition no_literal_eval :: "string \<Rightarrow> pyval option" where
  "no_literal_eval s = None"

definition sample_agent :: agent where
  "sample_agent =
     \<lparr> db = Some sample_store,
       search_collections = (\<lambda>q. []),
       describe_collection = (\<lambda>c. []),
       llm_generate = (\<lambda>s u. ''db.orders.aggregate([{$set: {status: \"done\"}}])''),
       literal_eval = no_literal_eval \<rparr>"


section \<open>Properties of the query compiler\<close>

lemma analyze_collections_nonempty: "a_collections (analyze_question md q) \<noteq> []"
  by (simp add: analyze_question_def Let_def)

lemma analyze_intent: "a_intent (analyze_question md q) = determine_intent (lower q)"
  by (simp add: analyze_question_def Let_def)

lemma analyze_filters: "a_filters (analyze_question md q) = extract_filters q"
  by (simp add: analyze_question_def Let_def)

text \<open>\<open>generate_query\<close> never raises, so \<open>generate_mongo_query\<close> never reaches its
  fallback.\<close>

lemma generate_query_total:
  "\<exists>pipeline collection. generate_query md q = Inr (pipeline, collection)"
  using analyze_collections_nonempty[of md q]
  by (auto simp: generate_query_def Let_def split: list.splits)

lemma search_year_shape:
  "search_year q = Some y \<Longrightarrow>
     \<exists>c d. y = [CHR ''2'', CHR ''0'', c, d] \<and> is_digit c \<and> is_digit d"
  by (induction q rule: search_year.induct) (auto split: if_splits)

lemma search_year_in: "search_year q = Some y \<Longrightarrow> str_in y q"
proof (induction q rule: search_year.induct)
  case (1 a b c d rest)
  show ?case
  proof (cases "a = CHR ''2'' \<and> b = CHR ''0'' \<and> is_digit c \<and> is_digit d")
    case True
    with 1 have "y = [a, b, c, d]" by simp
    then have "prefix y (a # b # c # d # rest)" by simp
    then show ?thesis unfolding str_in_def by (simp add: sublist_Cons_right)
  next
    case False
    with 1 have "str_in y (b # c # d # rest)" by simp
    then show ?thesis unfolding str_in_def by (simp add: sublist_Cons_right)
  qed
qed simp_all

lemma map_of_dict_set_other: "k \<noteq> k' \<Longrightarrow> map_of (dict_set k v d) k' = map_of d k'"
  by (induction d) auto

lemma dict_set_nonempty: "dict_set k v d \<noteq> []"
  by (cases d) (auto split: if_splits)

lemma year_value_range:
  assumes "search_year q = Some y"
  shows "2000 \<le> int_of_digits 0 y \<and> int_of_digits 0 y \<le> 2099"
proof -
  obtain c d where y: "y = [CHR ''2'', CHR ''0'', c, d]" and c: "is_digit c" and d: "is_digit d"
    using search_year_shape[OF assms] by blast
  have "0 \<le> digit_val c \<and> digit_val c \<le> 9" "0 \<le> digit_val d \<and> digit_val d \<le> 9"
    using c d by (auto simp: is_digit_def digit_val_def Let_def)
  moreover have "int_of_digits 0 y = 2000 + 10 * digit_val c + digit_val d"
    by (simp add: y digit_val_def)
  ultimately show ?thesis by arith
qed

lemma match_stage_year:
  assumes "year fl = Some y" and "find_date_fields md c = f # fs" and "f \<noteq> ''status''"
  shows "match_stage_of md c i fl \<noteq> []"
    and "map_of (match_stage_of md c i fl) f =
           Some (PDict [(''$gte'', PDatetime (int_of_digits 0 y) 1 1),
                        (''$lt'', PDatetime (int_of_digits 0 y + 1) 1 1)])"
  using assms
  by (auto simp: match_stage_of_def Let_def map_of_dict_set_other dict_set_nonempty
           split: option.splits)

text \<open>
  C5, as amended. When \<open>y\<close> is the leftmost occurrence of \<open>20\<close> followed by two digits in
  the question, and the first date-like field of the resolved collection is not the
  field \<open>status\<close> (which a status filter would overwrite), the pipeline starts with a
  match stage that constrains that field to greater-or-equal 1 January of \<open>y\<close> and
  strictly less than 1 January of \<open>y + 1\<close>.
\<close>

theorem year_filter_range:
  assumes "search_year question = Some y"
      and "generate_query md question = Inr (pipeline, collection)"
      and "find_date_fields md collection = date_field # others"
      and "date_field \<noteq> ''status''"
  shows "\<exists>m stages. pipeline = PDict [(''$match'', PDict m)] # stages
           \<and> map_of m date_field =
               Some (PDict [(''$gte'', PDatetime (int_of_digits 0 y) 1 1),
                            (''$lt'', PDatetime (int_of_digits 0 y + 1) 1 1)])
           \<and> str_in y question \<and> 2000 \<le> int_of_digits 0 y \<and> int_of_digits 0 y \<le> 2099"
proof -
  let ?an = "analyze_question md question"
  let ?m = "match_stage_of md collection (a_intent ?an) (a_filters ?an)"
  let ?st = "intent_stages md question collection (a_intent ?an)"
  have yr: "year (a_filters ?an) = Some y"
    using assms(1) by (simp add: analyze_filters extract_filters_def)
  have ne: "?m \<noteq> []" and rg: "map_of ?m date_field =
               Some (PDict [(''$gte'', PDatetime (int_of_digits 0 y) 1 1),
                            (''$lt'', PDatetime (int_of_digits 0 y + 1) 1 1)])"
    using match_stage_year[OF yr assms(3) assms(4)] by simp_all
  have "pipeline = PDict [(''$match'', PDict ?m)] # ?st"
    using assms(2) ne by (auto simp: generate_query_def Let_def split: list.splits)
  then show ?thesis
    using rg search_year_in[OF assms(1)] year_value_range[OF assms(1)] by blast
qed

theorem year_filter_range_witness:
  "search_year ''sales in 2024'' = Some ''2024''
   \<and> generate_query [(''orders'', [(''orderDate'', ''datetime''), (''amount'', ''int'')])]
        ''sales in 2024'' =
       Inr ([PDict [(''$match'', PDict [(''orderDate'',
                PDict [(''$gte'', PDatetime 2024 1 1), (''$lt'', PDatetime 2025 1 1)])])],
             PDict [(''$group'', PDict [(''_id'', PNone),
                (''total'', PDict [(''$sum'', PStr ''$amount'')])])]], ''orders'')
   \<and> find_date_fields [(''orders'', [(''orderDate'', ''datetime''), (''amount'', ''int'')])]
        ''orders'' = [''orderDate'']
   \<and> ''orderDate'' \<noteq> ''status''"
proof -
  let ?md = "[(''orders'', [(''orderDate'', ''datetime''), (''amount'', ''int'')])]"
  have a: "search_year ''sales in 2024'' = Some ''2024''" by code_simp
  have b: "generate_query ?md ''sales in 2024'' =
       Inr ([PDict [(''$match'', PDict [(''orderDate'',
                PDict [(''$gte'', PDatetime 2024 1 1), (''$lt'', PDatetime 2025 1 1)])])],
             PDict [(''$group'', PDict [(''_id'', PNone),
                (''total'', PDict [(''$sum'', PStr ''$amount'')])])]], ''orders'')"
    by code_simp
  have c: "find_date_fields ?md ''orders'' = [''orderDate'']" by code_simp
  have d: "''orderDate'' \<noteq> ''status''" by simp
  note t = year_filter_range[OF a b c d]
  show ?thesis using t by (intro conjI a b c d)
qed

text \<open>
  C5, as stated, fails: the question below contains the year 2024, the collection has a
  date-like field, and the match stage holds the range of 2023, the leftmost year.
\<close>

theorem year_filter_range_counterexample:
  "str_in ''2024'' ''orders from 2023 to 2024''
   \<and> find_date_fields [(''orders'', [(''orderDate'', ''datetime'')])] ''orders'' = [''orderDate'']
   \<and> generate_query [(''orders'', [(''orderDate'', ''datetime'')])] ''orders from 2023 to 2024'' =
       Inr ([PDict [(''$match'', PDict [(''orderDate'',
                PDict [(''$gte'', PDatetime 2023 1 1), (''$lt'', PDatetime 2024 1 1)])])],
             PDict [(''$sort'', PDict [(''orderDate'', PInt (- 1))])],
             PDict [(''$limit'', PInt 10)]], ''orders'')"
  by code_simp

text \<open>
  C9. When the keyword ladder classifies the question as plain \<open>max\<close> or \<open>min\<close>,
  \<open>generate_query\<close> takes its last branch: the pipeline is an optional match stage
  followed by a sort on the first date-like field (on \<open>_id\<close> when there is none),
  descending, and a limit of 10; it holds no group stage.
\<close>

theorem plain_min_max_list_pipeline:
  assumes "determine_intent (lower question) = Max_intent
           \<or> determine_intent (lower question) = Min_intent"
  shows "\<exists>collection pre sort_key.
           generate_query md question =
             Inr (pre @ [PDict [(''$sort'', PDict [(sort_key, PInt (- 1))])],
                         PDict [(''$limit'', PInt 10)]], collection)
           \<and> sort_key = (case find_date_fields md collection of [] \<Rightarrow> ''_id'' | f # _ \<Rightarrow> f)
           \<and> (pre = [] \<or> (\<exists>m. pre = [PDict [(''$match'', PDict m)]]))
           \<and> \<not> list_ex is_group_stage
                 (pre @ [PDict [(''$sort'', PDict [(sort_key, PInt (- 1))])],
                         PDict [(''$limit'', PInt 10)]])"
proof -
  obtain collection cs where cs: "a_collections (analyze_question md question) = collection # cs"
    using analyze_collections_nonempty[of md question]
    by (cases "a_collections (analyze_question md question)") auto
  let ?i = "determine_intent (lower question)"
  have st: "intent_stages md question collection ?i = list_stages md collection"
    using assms by (auto simp: intent_stages_def)
  let ?m = "match_stage_of md collection ?i (extract_filters question)"
  let ?pre = "if ?m \<noteq> [] then [PDict [(''$match'', PDict ?m)]] else []"
  let ?k = "case find_date_fields md collection of [] \<Rightarrow> ''_id'' | f # _ \<Rightarrow> f"
  have ls: "list_stages md collection =
              [PDict [(''$sort'', PDict [(?k, PInt (- 1))])], PDict [(''$limit'', PInt 10)]]"
    by (simp add: list_stages_def split: list.splits)
  have gq: "generate_query md question = Inr (?pre @ list_stages md collection, collection)"
    using cs st by (simp add: generate_query_def Let_def analyze_intent analyze_filters)
  have ng: "\<not> list_ex is_group_stage
              (?pre @ [PDict [(''$sort'', PDict [(?k, PInt (- 1))])],
                       PDict [(''$limit'', PInt 10)]])"
    by (simp add: is_group_stage_def)
  have pre: "?pre = [] \<or> (\<exists>m. ?pre = [PDict [(''$match'', PDict m)]])" by simp
  show ?thesis
    by (intro exI[of _ collection] exI[of _ ?pre] exI[of _ ?k] conjI)
       (rule gq[unfolded ls], rule refl, rule pre, rule ng)
qed

theorem plain_min_max_list_pipeline_witness:
  "(determine_intent (lower ''max price'') = Max_intent
     \<or> determine_intent (lower ''max price'') = Min_intent)
   \<and> generate_query [(''orders'', [(''price'', ''int'')])] ''max price'' =
       Inr ([PDict [(''$sort'', PDict [(''_id'', PInt (- 1))])],
             PDict [(''$limit'', PInt 10)]], ''orders'')"
proof -
  have h: "determine_intent (lower ''max price'') = Max_intent" by code_simp
  have g: "generate_query [(''orders'', [(''price'', ''int'')])] ''max price'' =
       Inr ([PDict [(''$sort'', PDict [(''_id'', PInt (- 1))])],
             PDict [(''$limit'', PInt 10)]], ''orders'')"
    by code_simp
  note t = plain_min_max_list_pipeline
             [of "''max price''" "[(''orders'', [(''price'', ''int'')])]", OF disjI1, OF h]
  show ?thesis using t by (intro conjI disjI1 h g)
qed

text \<open>
  C4. The question below classifies as \<open>average\<close>; the \<open>customers\<close> collection has no
  amount-like field and no filter applies, so no stage is appended and the compiled
  pipeline is empty: the \<open>average\<close> branch lacks the count stage that the
  \<open>aggregate_sum\<close> branch substitutes, and the one-stage fallback of
  \<open>generate_mongo_query\<close> is reached on an exception only.
\<close>

theorem average_without_amount_field_is_empty:
  "generate_mongo_query [(''customers'', [(''name'', ''str''), (''email'', ''str'')])]
     ''average age of customers'' = []"
  by code_simp

section \<open>Properties of the safety gate and the dispatcher\<close>

lemma gate_passes_updateMany: "safety_check (PDict [(''note'', PStr ''updateMany'')]) = False"
  by code_simp

text \<open>
  C1. Two commands that the claim wants rejected reach the store. The gate lower-cases
  the printed query and then looks for tokens that hold capital letters, so a
  \<open>find\<close> argument that contains \<open>updateMany\<close> passes it, whatever the store answers;
  and an \<open>aggregate\<close> command, here one with a \<open>$set\<close> stage recovered from the
  model's text, is sent to the store without passing through the gate at all.
\<close>

theorem gate_misses_mixed_case_token_and_aggregate:
  "snd (execute_query (Some st) ''orders'' (PDict [(''note'', PStr ''updateMany'')])) =
     [Find_call ''orders'' (PDict [(''note'', PStr ''updateMany'')])]
   \<and> recover lit ''db.orders.aggregate([{$set: {status: \"done\"}}])'' =
       Inr (Some \<lparr> collection_name = ''orders'', operation = Aggregate,
                   argument = PList [PDict [(''$set'', PDict [(''status'', PStr ''done'')])]] \<rparr>)
   \<and> snd (run_command (Some st) code
            \<lparr> collection_name = ''orders'', operation = Aggregate,
              argument = PList [PDict [(''$set'', PDict [(''status'', PStr ''done'')])]] \<rparr>) =
     [Aggregate_call ''orders'' (PList [PDict [(''$set'', PDict [(''status'', PStr ''done'')])]])]"
proof -
  have a: "snd (execute_query (Some st) ''orders'' (PDict [(''note'', PStr ''updateMany'')])) =
     [Find_call ''orders'' (PDict [(''note'', PStr ''updateMany'')])]"
    by (simp add: execute_query_def gate_passes_updateMany split: sum.splits)
  have b: "recover lit ''db.orders.aggregate([{$set: {status: \"done\"}}])'' =
       Inr (Some \<lparr> collection_name = ''orders'', operation = Aggregate,
                   argument = PList [PDict [(''$set'', PDict [(''status'', PStr ''done'')])]] \<rparr>)"
    by code_simp
  have c: "snd (run_command (Some st) code
            \<lparr> collection_name = ''orders'', operation = Aggregate,
              argument = PList [PDict [(''$set'', PDict [(''status'', PStr ''done'')])]] \<rparr>) =
     [Aggregate_call ''orders'' (PList [PDict [(''$set'', PDict [(''status'', PStr ''done'')])]])]"
    by (simp add: run_command_def Let_def split: sum.splits)
  show ?thesis using a b c by blast
qed



















section \<open>Properties of the agent\<close>

text \<open>
  C3. The ranker of the sample agent finds no collection, so \<open>build_context\<close> signals
  that none is relevant, and \<open>process_query\<close> nevertheless sends the decline prompts
  to the language model and runs the command it answers: the test for the text
  \<open>OUT_OF_SCOPE\<close> reads the prompts, and the decline prompts do not hold it.
\<close>

theorem no_relevant_collection_still_asks_model:
  "build_context (search_collections sample_agent ''hello'') (describe_collection sample_agent)
     = ''NO_RELEVANT_COLLECTION''
   \<and> process_query sample_agent ''hello'' =
       (Formatted (Docs [[(''_id'', PObjectId ''65a1b2c3d4e5f60718293a4c''), (''total'', PInt 250)]]),
        [LLM_call decline_system_prompt (decline_user_prompt ''hello''),
         Aggregate_call ''orders'' (PList [PDict [(''$set'', PDict [(''status'', PStr ''done'')])]])])"
  by code_simp

section \<open>Properties of the recovery parser\<close>




lemma drop_find_char:
  assumes "c \<in> set s"
  shows "\<exists>r. drop (find_char c s) s = c # r"
proof -
  have "dropWhile (\<lambda>x. x \<noteq> c) s \<noteq> []" using assms by (simp add: dropWhile_eq_Nil_conv)
  then obtain y r where yr: "dropWhile (\<lambda>x. x \<noteq> c) s = y # r"
    by (cases "dropWhile (\<lambda>x. x \<noteq> c) s") auto
  then have "y = c" using hd_dropWhile[of "\<lambda>x. x \<noteq> c" s] by force
  moreover have "drop (find_char c s) s = dropWhile (\<lambda>x. x \<noteq> c) s"
    by (simp add: find_char_def dropWhile_eq_drop)
  ultimately show ?thesis using yr by simp
qed

lemma takeWhile_upto_first:
  assumes "c \<notin> set a"
  shows "takeWhile (\<lambda>x. x \<noteq> c) (a @ c # b) = a"
proof -
  have "takeWhile (\<lambda>x. x \<noteq> c) (a @ c # b) = a @ takeWhile (\<lambda>x. x \<noteq> c) (c # b)"
    by (rule takeWhile_append2) (use assms in auto)
  then show ?thesis by simp
qed

lemma find_char_first: "c \<notin> set a \<Longrightarrow> find_char c (a @ c # b) = length a"
  by (simp add: find_char_def takeWhile_upto_first)

lemma rfind_end_last:
  assumes "c \<notin> set b"
  shows "rfind_end c (a @ c # b) = Suc (length a)"
proof -
  have "takeWhile (\<lambda>x. x \<noteq> c) (rev b @ c # rev a) = rev b"
    by (rule takeWhile_upto_first) (use assms in simp)
  then show ?thesis by (simp add: rfind_end_def)
qed

lemma scan_brackets_never_raises:
  "0 < d \<or> (\<exists>r. t = opn # r) \<Longrightarrow> scan_brackets opn cls d i t \<noteq> Inl e"
proof (induction t arbitrary: d i)
  case Nil
  then show ?case by simp
next
  case (Cons c cs)
  show ?case
  proof (cases "c = opn")
    case True
    then show ?thesis using Cons.IH[of "Suc d" "Suc i"] by simp
  next
    case False
    then have "0 < d" using Cons.prems by auto
    then obtain d' where d': "d = Suc d'" by (cases d) auto
    show ?thesis
      using False d' Cons.IH[of d' "Suc i"] Cons.IH[of d "Suc i"] by auto
  qed
qed


lemma parse_argument_never_raises:
  assumes "opn \<noteq> cls"
  shows "\<exists>arg. parse_argument lit opn cls dflt content = Inr arg"
proof (cases "opn \<in> set content")
  case False
  then show ?thesis by (simp add: parse_argument_def)
next
  case True
  obtain r where r: "drop (find_char opn content) content = opn # r"
    using drop_find_char[OF True] by blast
  have "scan_brackets opn cls 0 0 (opn # r) \<noteq> Inl e" for e
    by (rule scan_brackets_never_raises) simp
  then show ?thesis
    using True r by (auto simp: parse_argument_def Let_def split: sum.splits option.splits)
qed

lemma recover_never_raises: "\<exists>r. recover lit query_code = Inr r"
proof (cases "search_command query_code")
  case None
  then show ?thesis by (simp add: recover_def)
next
  case (Some m)
  obtain name op content where m: "m = (name, op, content)" by (cases m) auto
  have "\<exists>a. parse_argument lit CHR ''['' CHR '']'' (PList []) content = Inr a"
    by (rule parse_argument_never_raises) simp
  then obtain a where a: "parse_argument lit CHR ''['' CHR '']'' (PList []) content = Inr a" ..
  have "\<exists>b. parse_argument lit CHR ''{'' CHR ''}'' (PDict []) content = Inr b"
    by (rule parse_argument_never_raises) simp
  then obtain b where b: "parse_argument lit CHR ''{'' CHR ''}'' (PDict []) content = Inr b" ..
  show ?thesis using Some m a b by (simp add: recover_def)
qed







end
